theory Spec2Isabelle
  imports Main "HOL-Library.Word"
begin

section \<open>JavaScript strings\<close>

text \<open>
  A JavaScript string is a sequence of UTF-16 code units. \<open>String.prototype.trim\<close>
  removes the code units of the ECMAScript productions WhiteSpace and LineTerminator
  from both ends; all of them lie in the Basic Multilingual Plane, so each is one
  code unit.
\<close>

type_synonym js_string = "16 word list"

definition is_white_space :: "16 word \<Rightarrow> bool" where
  "is_white_space c \<longleftrightarrow>
     c = 0x0009 \<or> c = 0x000A \<or> c = 0x000B \<or> c = 0x000C \<or> c = 0x000D \<or>
     c = 0x0020 \<or> c = 0x00A0 \<or> c = 0x1680 \<or> (0x2000 \<le> c \<and> c \<le> 0x200A) \<or>
     c = 0x2028 \<or> c = 0x2029 \<or> c = 0x202F \<or> c = 0x205F \<or> c = 0x3000 \<or>
     c = 0xFEFF"

definition trim :: "js_string \<Rightarrow> js_string" where
  "trim s = rev (dropWhile is_white_space (rev (dropWhile is_white_space s)))"

text \<open>
  \<open>encodeURIComponent\<close> throws a URIError on a string with a lone surrogate. The
  encoded text itself is kept symbolic (see \<open>TodosSearchUrl\<close> below).
\<close>

definition is_high_surrogate :: "16 word \<Rightarrow> bool" where
  "is_high_surrogate c \<longleftrightarrow> 0xD800 \<le> c \<and> c \<le> 0xDBFF"

definition is_low_surrogate :: "16 word \<Rightarrow> bool" where
  "is_low_surrogate c \<longleftrightarrow> 0xDC00 \<le> c \<and> c \<le> 0xDFFF"

fun well_formed :: "js_string \<Rightarrow> bool" where
  "well_formed [] = True"
| "well_formed [c] = (\<not> is_high_surrogate c \<and> \<not> is_low_surrogate c)"
| "well_formed (c # d # cs) =
     (if is_high_surrogate c then is_low_surrogate d \<and> well_formed cs
      else \<not> is_low_surrogate c \<and> well_formed (d # cs))"

section \<open>The data model and the payloads\<close>

text \<open>
  The interface \<open>TodoItem\<close> (lines 21-29 and 387-395). A field of type
  \<open>string | null\<close> is an option. The field \<open>id\<close> is written \<open>id'\<close>.
\<close>

record TodoItem =
  id' :: js_string
  title :: js_string
  description :: "js_string option"
  dueDate :: "js_string option"
  isImportant :: bool
  isCompleted :: bool
  createdAt :: js_string

text \<open>
  The argument of \<open>JSON.stringify\<close>: an object literal is the list of its keys and
  values in the order written.
\<close>

datatype json = JNull | JBool bool | JString js_string

type_synonym json_object = "(string \<times> json) list"

datatype http_method = GET | POST | PUT

text \<open>
  The three URLs the client builds from \<open>API_URL\<close>: the collection, one item
  (\<open>API_URL/id\<close>) and the collection with \<open>?search=encodeURIComponent(query)\<close>.
\<close>

datatype url = TodosUrl | TodoUrl js_string | TodosSearchUrl js_string

record request =
  http_method :: http_method
  url :: url
  body :: "json_object option"

text \<open>
  How a \<open>fetch\<close> settles: the promise rejects (network failure), or it resolves to
  a response with a status and a body; the body is \<open>None\<close> when
  \<open>response.json()\<close> rejects. \<open>response.ok\<close> is true for the statuses 200 to 299.
\<close>

datatype 'a fetch_outcome = NetworkError | Response nat "'a option"

definition ok :: "nat \<Rightarrow> bool" where
  "ok status \<longleftrightarrow> 200 \<le> status \<and> status \<le> 299"

section \<open>What the user sees\<close>

text \<open>
  The titles and messages of \<open>Alert.alert\<close>, one constructor for each string literal
  of the source (transliterated to ASCII):
  \<^item> \<open>Uyari\<close>, \<open>Basarili\<close>, \<open>Hata\<close>: the titles "Uyari" (warning), "Basarili"
    (success) and "Hata" (error);
  \<^item> \<open>TitleEmpty\<close>: "Gorev basligi bos birakilamaz." (line 185);
  \<^item> \<open>TodoUpdated\<close>: "Gorev basariyla guncellendi.", \<open>TodoAdded\<close>: "Yeni gorev
    eklendi." (line 208);
  \<^item> \<open>SaveFailed\<close>: "Kaydetme islemi sirasinda bir hata olustu." (line 215);
  \<^item> \<open>DetailsFailed\<close>: "Gorev detaylari yuklenirken hata olustu." (line 166);
  \<^item> \<open>ListFailed\<close>: "Gorevler yuklenirken bir sorun olustu." (line 485);
  \<^item> \<open>ToggleFailed\<close>: "Gorevin durumu guncellenemedi." (line 522).
\<close>

datatype alert_title = Uyari | Basarili | Hata

datatype alert_message =
  TitleEmpty | TodoUpdated | TodoAdded | SaveFailed | DetailsFailed | ListFailed | ToggleFailed

datatype exn = RangeError | URIError

text \<open>
  What a handler does besides updating the component's state, in order: an alert, a
  \<open>console.error\<close>, \<open>navigation.goBack()\<close>, a call of \<open>fetch\<close>, or an exception
  that no \<open>catch\<close> of the handler takes.
\<close>

datatype effect =
  Alert alert_title alert_message
| ConsoleError
| GoBack
| Fetch request
| Uncaught exn

definition requests :: "effect list \<Rightarrow> request list" where
  "requests es = concat (map (\<lambda>e. case e of Fetch r \<Rightarrow> [r] | _ \<Rightarrow> []) es)"

definition alerts :: "effect list \<Rightarrow> (alert_title \<times> alert_message) list" where
  "alerts es = concat (map (\<lambda>e. case e of Alert t m \<Rightarrow> [(t, m)] | _ \<Rightarrow> []) es)"

section \<open>AddEditScreen\<close>

text \<open>
  A \<open>Date\<close> object holds a time value or is invalid (\<open>new Date\<close> of a string that
  does not parse); \<open>toISOString\<close> throws a RangeError on an invalid one. The two
  library functions are parameters: \<open>toISOString\<close> is the method on a time value,
  \<open>newDate\<close> is \<open>new Date(string)\<close>.
\<close>

datatype Date = TimeValue int | InvalidDate

text \<open>
  The state of the screen (lines 148-153); \<open>form_title\<close>, \<open>form_description\<close>,
  \<open>form_dueDate\<close>, \<open>form_isImportant\<close> and \<open>form_loading\<close> are the state variables
  \<open>title\<close>, \<open>description\<close>, \<open>dueDate\<close>, \<open>isImportant\<close> and \<open>loading\<close>.
\<close>

record AddEditScreen =
  form_title :: js_string
  form_description :: js_string
  form_dueDate :: "Date option"
  form_isImportant :: bool
  form_loading :: bool
  isSaving :: bool

text \<open>\<open>isEditing = !!todoId\<close> (line 146): an absent or empty id is not editing.\<close>

definition isEditing :: "js_string option \<Rightarrow> bool" where
  "isEditing todoId = (case todoId of None \<Rightarrow> False | Some i \<Rightarrow> i \<noteq> [])"

text \<open>
  The object literal \<open>payload\<close> of \<open>handleSave\<close> (lines 193-198).
  \<open>description.trim() || null\<close> is null when the trimmed text is empty; the
  \<open>dueDate\<close> entry throws on an invalid date.
\<close>

definition payload :: "(int \<Rightarrow> js_string) \<Rightarrow> AddEditScreen \<Rightarrow> exn + json_object" where
  "payload toISOString st =
     (case (case form_dueDate st of
              None \<Rightarrow> Inr JNull
            | Some InvalidDate \<Rightarrow> Inl RangeError
            | Some (TimeValue t) \<Rightarrow> Inr (JString (toISOString t))) of
        Inl e \<Rightarrow> Inl e
      | Inr due \<Rightarrow>
          Inr [(''title'', JString (trim (form_title st))),
               (''description'',
                  if trim (form_description st) = [] then JNull
                  else JString (trim (form_description st))),
               (''dueDate'', due),
               (''isImportant'', JBool (form_isImportant st))])"

text \<open>
  \<open>handleSave\<close> (lines 183-219) up to its \<open>await\<close>, and its continuation when the
  \<open>fetch\<close> has settled. The payload is built before the \<open>try\<close>, so a RangeError
  leaves the function after \<open>setIsSaving(true)\<close>.
\<close>

definition handleSave :: "(int \<Rightarrow> js_string) \<Rightarrow> js_string option \<Rightarrow> AddEditScreen
    \<Rightarrow> AddEditScreen \<times> effect list" where
  "handleSave toISOString todoId st =
     (if trim (form_title st) = [] then (st, [Alert Uyari TitleEmpty])
      else
        (case payload toISOString st of
           Inl e \<Rightarrow> (st\<lparr>isSaving := True\<rparr>, [Uncaught e])
         | Inr p \<Rightarrow>
             (st\<lparr>isSaving := True\<rparr>,
              [Fetch \<lparr>http_method = (if isEditing todoId then PUT else POST),
                      url = (if isEditing todoId then TodoUrl (the todoId) else TodosUrl),
                      body = Some p\<rparr>])))"

definition handleSave_settled :: "js_string option \<Rightarrow> AddEditScreen \<Rightarrow> 'a fetch_outcome
    \<Rightarrow> AddEditScreen \<times> effect list" where
  "handleSave_settled todoId st r =
     (case r of
        Response status b \<Rightarrow>
          if ok status then
            (st\<lparr>isSaving := False\<rparr>,
             [Alert Basarili (if isEditing todoId then TodoUpdated else TodoAdded), GoBack])
          else (st\<lparr>isSaving := False\<rparr>, [ConsoleError, Alert Hata SaveFailed])
      | NetworkError \<Rightarrow> (st\<lparr>isSaving := False\<rparr>, [ConsoleError, Alert Hata SaveFailed]))"

text \<open>
  \<open>fetchTodoDetails\<close> (lines 155-171). \<open>data.description || ''\<close> maps null and the
  empty string to the empty string; \<open>data.dueDate ? new Date(data.dueDate) : null\<close>
  maps null and the empty string to null.
\<close>

definition fetchTodoDetails :: "js_string \<Rightarrow> AddEditScreen \<Rightarrow> AddEditScreen \<times> effect list" where
  "fetchTodoDetails i st = (st, [Fetch \<lparr>http_method = GET, url = TodoUrl i, body = None\<rparr>])"

definition fetchTodoDetails_settled :: "(js_string \<Rightarrow> Date) \<Rightarrow> AddEditScreen
    \<Rightarrow> TodoItem fetch_outcome \<Rightarrow> AddEditScreen \<times> effect list" where
  "fetchTodoDetails_settled newDate st r =
     (case r of
        Response status (Some d) \<Rightarrow>
          if ok status then
            (st\<lparr>form_title := title d,
                form_description := (case description d of None \<Rightarrow> [] | Some s \<Rightarrow> s),
                form_isImportant := isImportant d,
                form_dueDate :=
                  (case dueDate d of
                     None \<Rightarrow> None
                   | Some s \<Rightarrow> if s = [] then None else Some (newDate s)),
                form_loading := False\<rparr>, [])
          else (st\<lparr>form_loading := False\<rparr>, [Alert Hata DetailsFailed, GoBack])
      | _ \<Rightarrow> (st\<lparr>form_loading := False\<rparr>, [Alert Hata DetailsFailed, GoBack]))"

section \<open>HomeScreen\<close>

text \<open>The state of the screen (lines 470-472).\<close>

record HomeScreen =
  todos :: "TodoItem list"
  loading :: bool
  searchQuery :: js_string

text \<open>
  \<open>fetchTodos\<close> (lines 474-489) up to its \<open>await\<close>, and its continuation. The URL
  is built inside the \<open>try\<close>: a URIError of \<open>encodeURIComponent\<close> is caught, and
  \<open>finally\<close> resets \<open>loading\<close>. The continuation does not read \<open>query\<close>.
\<close>

definition fetchTodos :: "js_string \<Rightarrow> HomeScreen \<Rightarrow> HomeScreen \<times> effect list" where
  "fetchTodos query st =
     (if query = [] then
        (st\<lparr>loading := True\<rparr>, [Fetch \<lparr>http_method = GET, url = TodosUrl, body = None\<rparr>])
      else if well_formed query then
        (st\<lparr>loading := True\<rparr>,
         [Fetch \<lparr>http_method = GET, url = TodosSearchUrl query, body = None\<rparr>])
      else (st\<lparr>loading := False\<rparr>, [ConsoleError, Alert Hata ListFailed]))"

definition fetchTodos_settled :: "js_string \<Rightarrow> HomeScreen \<Rightarrow> TodoItem list fetch_outcome
    \<Rightarrow> HomeScreen \<times> effect list" where
  "fetchTodos_settled query st r =
     (case r of
        Response status (Some data) \<Rightarrow>
          if ok status then (st\<lparr>todos := data, loading := False\<rparr>, [])
          else (st\<lparr>loading := False\<rparr>, [ConsoleError, Alert Hata ListFailed])
      | _ \<Rightarrow> (st\<lparr>loading := False\<rparr>, [ConsoleError, Alert Hata ListFailed]))"

text \<open>
  The effect of lines 491-495 runs when \<open>isFocused\<close> or \<open>searchQuery\<close> has
  changed. \<open>handleSearch\<close> (lines 497-499) is \<open>setSearchQuery\<close>: setting the value
  the state already has renders nothing and runs no effect; a new value is followed
  by the effect.
\<close>

definition refresh :: "bool \<Rightarrow> HomeScreen \<Rightarrow> HomeScreen \<times> effect list" where
  "refresh isFocused st = (if isFocused then fetchTodos (searchQuery st) st else (st, []))"

definition handleSearch :: "bool \<Rightarrow> js_string \<Rightarrow> HomeScreen \<Rightarrow> HomeScreen \<times> effect list" where
  "handleSearch isFocused query st =
     (if query = searchQuery st then (st, [])
      else refresh isFocused (st\<lparr>searchQuery := query\<rparr>))"

text \<open>
  \<open>handleToggleCompletion\<close> (lines 501-524) up to its \<open>await\<close>, and its
  continuation. \<open>item\<close> is the item of the row that was pressed; \<open>setTodos\<close> is called
  with a function of the list held when the response arrives.
\<close>

definition handleToggleCompletion :: "TodoItem \<Rightarrow> HomeScreen \<Rightarrow> HomeScreen \<times> effect list" where
  "handleToggleCompletion item st =
     (st, [Fetch \<lparr>http_method = PUT, url = TodoUrl (id' item),
                  body = Some [(''isCompleted'', JBool (\<not> isCompleted item))]\<rparr>])"

definition handleToggleCompletion_settled :: "TodoItem \<Rightarrow> HomeScreen \<Rightarrow> 'a fetch_outcome
    \<Rightarrow> HomeScreen \<times> effect list" where
  "handleToggleCompletion_settled item st r =
     (case r of
        Response status b \<Rightarrow>
          if ok status then
            (st\<lparr>todos :=
                 map (\<lambda>t. if id' t = id' item then t\<lparr>isCompleted := \<not> isCompleted item\<rparr> else t)
                   (todos st)\<rparr>, [])
          else (st, [ConsoleError, Alert Hata ToggleFailed])
      | NetworkError \<Rightarrow> (st, [ConsoleError, Alert Hata ToggleFailed]))"

section \<open>TodoStore\<close>

text \<open>
  Modelled from the spec: the backend that serves \<open>API_URL\<close> is not among the
  sources; only its callers are. The definitions of this section follow sections 3,
  4.1 and 6 of the specification.
\<close>

datatype store_error = ValidationError | NotFound

type_synonym store = "TodoItem list"

text \<open>
  Modelled from the spec: the partial fields of Update, "any subset of title,
  description, dueDate, isImportant, isCompleted"; \<open>None\<close> is a field that is not
  supplied, \<open>Some None\<close> a description or dueDate supplied as null.
\<close>

record partial_fields =
  new_title :: "js_string option"
  new_description :: "js_string option option"
  new_dueDate :: "js_string option option"
  new_isImportant :: "bool option"
  new_isCompleted :: "bool option"

definition Get :: "store \<Rightarrow> js_string \<Rightarrow> store_error + TodoItem" where
  \<comment> \<open>Modelled from the spec: Get fails with NotFound when no item has that id.\<close>
  "Get s i = (case find (\<lambda>t. id' t = i) s of None \<Rightarrow> Inl NotFound | Some t \<Rightarrow> Inr t)"

definition Create :: "js_string \<Rightarrow> js_string \<Rightarrow> store \<Rightarrow> js_string \<Rightarrow> js_string option
    \<Rightarrow> js_string option \<Rightarrow> bool option \<Rightarrow> (store_error + TodoItem) \<times> store" where
  \<comment> \<open>Modelled from the spec: Create fails with ValidationError when the title trims to
      empty; it assigns id and createdAt (here \<open>new_id\<close> and \<open>now\<close>, the server's
      choice), stores the title trimmed and defaults isImportant and isCompleted to
      false.\<close>
  "Create new_id now s t d due imp =
     (if trim t = [] then (Inl ValidationError, s)
      else
        (let item = \<lparr>id' = new_id, title = trim t, description = d, dueDate = due,
                      isImportant = (case imp of None \<Rightarrow> False | Some b \<Rightarrow> b),
                      isCompleted = False, createdAt = now\<rparr>
         in (Inr item, s @ [item])))"

definition apply_fields :: "partial_fields \<Rightarrow> TodoItem \<Rightarrow> TodoItem" where
  \<comment> \<open>Modelled from the spec: Update applies only the provided fields.\<close>
  "apply_fields p t =
     t\<lparr>title := (case new_title p of None \<Rightarrow> title t | Some x \<Rightarrow> trim x),
       description := (case new_description p of None \<Rightarrow> description t | Some x \<Rightarrow> x),
       dueDate := (case new_dueDate p of None \<Rightarrow> dueDate t | Some x \<Rightarrow> x),
       isImportant := (case new_isImportant p of None \<Rightarrow> isImportant t | Some x \<Rightarrow> x),
       isCompleted := (case new_isCompleted p of None \<Rightarrow> isCompleted t | Some x \<Rightarrow> x)\<rparr>"

definition Update :: "store \<Rightarrow> js_string \<Rightarrow> partial_fields \<Rightarrow> (store_error + TodoItem) \<times> store" where
  \<comment> \<open>Modelled from the spec: Update fails with ValidationError if an explicitly
      provided title trims to empty (for every such title, section 8) and with
      NotFound if the id is absent.\<close>
  "Update s i p =
     (if (case new_title p of None \<Rightarrow> False | Some x \<Rightarrow> trim x = []) then
        (Inl ValidationError, s)
      else
        (case Get s i of
           Inl e \<Rightarrow> (Inl e, s)
         | Inr t \<Rightarrow>
             (Inr (apply_fields p t),
              map (\<lambda>u. if id' u = i then apply_fields p u else u) s)))"

text \<open>
  Modelled from the spec: the REST surface of section 6. A key of the body that is
  missing, or whose value has another type than the field, supplies nothing; POST
  without a title is an empty title. The statuses are 201, 200, 400 and 404.
\<close>

definition fields_of_body :: "json_object \<Rightarrow> partial_fields" where
  "fields_of_body b =
     \<lparr>new_title = (case map_of b ''title'' of Some (JString x) \<Rightarrow> Some x | _ \<Rightarrow> None),
      new_description =
        (case map_of b ''description'' of
           Some (JString x) \<Rightarrow> Some (Some x) | Some JNull \<Rightarrow> Some None | _ \<Rightarrow> None),
      new_dueDate =
        (case map_of b ''dueDate'' of
           Some (JString x) \<Rightarrow> Some (Some x) | Some JNull \<Rightarrow> Some None | _ \<Rightarrow> None),
      new_isImportant = (case map_of b ''isImportant'' of Some (JBool x) \<Rightarrow> Some x | _ \<Rightarrow> None),
      new_isCompleted = (case map_of b ''isCompleted'' of Some (JBool x) \<Rightarrow> Some x | _ \<Rightarrow> None)\<rparr>"

definition status_of :: "store_error + TodoItem \<Rightarrow> nat \<Rightarrow> nat" where
  "status_of r success =
     (case r of Inl ValidationError \<Rightarrow> 400 | Inl NotFound \<Rightarrow> 404 | Inr t \<Rightarrow> success)"

definition put_todo :: "store \<Rightarrow> js_string \<Rightarrow> json_object \<Rightarrow> TodoItem fetch_outcome \<times> store" where
  "put_todo s i b =
     (case Update s i (fields_of_body b) of
        (r, s') \<Rightarrow> (Response (status_of r 200) (case r of Inl e \<Rightarrow> None | Inr t \<Rightarrow> Some t), s'))"

definition post_todos :: "js_string \<Rightarrow> js_string \<Rightarrow> store \<Rightarrow> json_object
    \<Rightarrow> TodoItem fetch_outcome \<times> store" where
  "post_todos new_id now s b =
     (let p = fields_of_body b in
      case Create new_id now s (case new_title p of None \<Rightarrow> [] | Some x \<Rightarrow> x)
             (case new_description p of None \<Rightarrow> None | Some x \<Rightarrow> x)
             (case new_dueDate p of None \<Rightarrow> None | Some x \<Rightarrow> x)
             (new_isImportant p) of
        (r, s') \<Rightarrow> (Response (status_of r 201) (case r of Inl e \<Rightarrow> None | Inr t \<Rightarrow> Some t), s'))"

section \<open>Responses in their order of arrival\<close>

text \<open>
  Each call of \<open>fetchTodos\<close> leaves a continuation waiting for its response; the
  continuations run one at a time, in the order the responses arrive, which need not
  be the order the requests were issued in. An arrival is the query of the call it
  answers and the outcome. \<open>delivered\<close> is the list a response carries when it is a
  success; \<open>last_delivered\<close> is the list of the last success among the arrivals.
\<close>

fun arrivals :: "(js_string \<times> TodoItem list fetch_outcome) list \<Rightarrow> HomeScreen \<Rightarrow> HomeScreen" where
  "arrivals [] st = st"
| "arrivals ((query, r) # rs) st = arrivals rs (fst (fetchTodos_settled query st r))"

definition delivered :: "TodoItem list fetch_outcome \<Rightarrow> TodoItem list option" where
  "delivered r =
     (case r of
        Response status (Some data) \<Rightarrow> if ok status then Some data else None
      | _ \<Rightarrow> None)"

fun last_delivered :: "(js_string \<times> TodoItem list fetch_outcome) list \<Rightarrow> TodoItem list option" where
  "last_delivered [] = None"
| "last_delivered ((query, r) # rs) =
     (case last_delivered rs of Some data \<Rightarrow> Some data | None \<Rightarrow> delivered r)"

section \<open>SearchBar and the debounced search\<close>

text \<open>
  \<open>SearchBar\<close> (lines 409-433) holds the text \<open>query\<close>. Its effect depends on
  \<open>query\<close> and \<open>onSearch\<close>: each run first cleans up the previous one
  (\<open>clearTimeout\<close>) and then calls \<open>setTimeout\<close> with 300 ms and a callback that
  holds the text of that render, so at most one timer is pending: \<open>timer\<close> is its
  due time and its text. Time is counted in milliseconds; a timer fires no earlier
  than it is due.
\<close>

record SearchBar =
  query :: js_string
  timer :: "(nat \<times> js_string) option"

text \<open>
  The two components together, with the clock \<open>clock\<close> and the value of the hook
  \<open>useIsFocused\<close>. \<open>last_edit\<close> records when the text last changed (the mount
  included); the code does not hold it, the theorems measure the quiet period with it.
\<close>

record App =
  clock :: nat
  bar :: SearchBar
  home :: HomeScreen
  isFocused :: bool
  last_edit :: nat

text \<open>
  What can happen to the mounted screen:
  \<^item> \<open>Elapse d\<close>: \<open>d\<close> milliseconds pass;
  \<^item> \<open>ChangeText s\<close>: \<open>onChangeText\<close> calls \<open>setQuery(s)\<close>; a new text renders the
    bar again and its effect runs again;
  \<^item> \<open>TimerFires\<close>: the pending timer, if it is due, calls \<open>onSearch\<close> with its
    text, that is \<open>handleSearch\<close>;
  \<^item> \<open>Rerender\<close>: HomeScreen renders again; \<open>handleSearch\<close> is a new function at
    every render (it is not memoised), so the effect of the bar runs again. It is an
    event of its own, free to follow any other, which covers every render that a
    change of state causes;
  \<^item> \<open>Focus b\<close>: \<open>isFocused\<close> becomes \<open>b\<close>, and the effect of lines 491-495 runs;
  \<^item> \<open>Settled q r\<close>, \<open>ToggleSettled item r\<close>: the response to a \<open>fetchTodos(q)\<close> or
    to a toggle of \<open>item\<close> arrives.
\<close>

datatype event =
  Elapse nat
| ChangeText js_string
| TimerFires
| Rerender
| Focus bool
| Settled js_string "TodoItem list fetch_outcome"
| ToggleSettled TodoItem "unit fetch_outcome"

text \<open>
  The mount at time \<open>t0\<close>: the initial state of lines 470-472 and 410, the first
  run of the effect of HomeScreen and the first timer of the bar.
\<close>

definition mount :: "nat \<Rightarrow> bool \<Rightarrow> App \<times> effect list" where
  "mount t0 focused =
     (case refresh focused \<lparr>todos = [], loading = True, searchQuery = []\<rparr> of
        (h, es) \<Rightarrow>
          (\<lparr>clock = t0, bar = \<lparr>query = [], timer = Some (t0 + 300, [])\<rparr>, home = h,
            isFocused = focused, last_edit = t0\<rparr>, es))"

fun step :: "event \<Rightarrow> App \<Rightarrow> App \<times> effect list" where
  "step (Elapse d) a = (a\<lparr>clock := clock a + d\<rparr>, [])"
| "step (ChangeText s) a =
     (if s = query (bar a) then (a, [])
      else (a\<lparr>bar := \<lparr>query = s, timer = Some (clock a + 300, s)\<rparr>, last_edit := clock a\<rparr>, []))"
| "step Rerender a = (a\<lparr>bar := (bar a)\<lparr>timer := Some (clock a + 300, query (bar a))\<rparr>\<rparr>, [])"
| "step TimerFires a =
     (case timer (bar a) of
        None \<Rightarrow> (a, [])
      | Some (due, q) \<Rightarrow>
          if due \<le> clock a then
            (case handleSearch (isFocused a) q (home a) of
               (h, es) \<Rightarrow> (a\<lparr>bar := (bar a)\<lparr>timer := None\<rparr>, home := h\<rparr>, es))
          else (a, []))"
| "step (Focus b) a =
     (if b = isFocused a then (a, [])
      else (case refresh b (home a) of (h, es) \<Rightarrow> (a\<lparr>isFocused := b, home := h\<rparr>, es)))"
| "step (Settled q r) a =
     (case fetchTodos_settled q (home a) r of (h, es) \<Rightarrow> (a\<lparr>home := h\<rparr>, es))"
| "step (ToggleSettled item r) a =
     (case handleToggleCompletion_settled item (home a) r of (h, es) \<Rightarrow> (a\<lparr>home := h\<rparr>, es))"

fun run :: "event list \<Rightarrow> App \<Rightarrow> App" where
  "run [] a = a"
| "run (e # es) a = run es (fst (step e a))"

text \<open>
  The invariant of the pending timer: it holds the text of the bar and is due no
  earlier than 300 ms after the last edit.
\<close>

definition quiet :: "App \<Rightarrow> bool" where
  "quiet a \<longleftrightarrow>
     last_edit a \<le> clock a \<and>
     (case timer (bar a) of
        None \<Rightarrow> True
      | Some (due, q) \<Rightarrow> q = query (bar a) \<and> last_edit a + 300 \<le> due)"

section \<open>Sample inputs\<close>

text \<open>
  Concrete inputs for the closed theorems: two items ("a" and "b" are the code units
  0x61 and 0x62), a list screen holding the first, and a form.
\<close>

definition item_a :: TodoItem where
  "item_a = \<lparr>id' = [0x31], title = [0x61], description = None, dueDate = None,
             isImportant = False, isCompleted = False, createdAt = [0x30]\<rparr>"

definition item_b :: TodoItem where
  "item_b = \<lparr>id' = [0x32], title = [0x62], description = Some [], dueDate = None,
             isImportant = True, isCompleted = True, createdAt = [0x30]\<rparr>"

definition home_a :: HomeScreen where
  "home_a = \<lparr>todos = [item_a], loading = False, searchQuery = []\<rparr>"

definition form_a :: AddEditScreen where
  "form_a = \<lparr>form_title = [0x20, 0x61, 0x20], form_description = [0x20],
             form_dueDate = None, form_isImportant = True, form_loading = False,
             isSaving = False\<rparr>"

section \<open>Facts about trimming, the payload and the store\<close>

lemma last_dropWhile: "dropWhile P xs \<noteq> [] \<Longrightarrow> last (dropWhile P xs) = last xs"
  by (induction xs) (auto split: if_splits)

lemma trim_ends:
  assumes "trim s \<noteq> []"
  shows "\<not> is_white_space (hd (trim s))" and "\<not> is_white_space (last (trim s))"
proof -
  let ?u = "dropWhile is_white_space s"
  let ?v = "dropWhile is_white_space (rev ?u)"
  have v: "?v \<noteq> []" using assms by (simp add: trim_def)
  have u: "?u \<noteq> []"
  proof
    assume "?u = []"
    then have "?v = dropWhile is_white_space (rev [])" by (simp only:)
    then have "?v = []" by (simp only: rev.simps dropWhile.simps)
    with v show False by (simp only: not_False_eq_True simp_thms)
  qed
  have "last ?v = last (rev ?u)" using v by (rule last_dropWhile)
  also have "\<dots> = hd ?u" using u by (simp add: last_rev)
  finally have "hd (trim s) = hd ?u" using v by (simp add: trim_def hd_rev)
  then show "\<not> is_white_space (hd (trim s))" using hd_dropWhile [OF u] by simp
  have "last (trim s) = hd ?v" using v by (simp add: trim_def last_rev)
  then show "\<not> is_white_space (last (trim s))" using hd_dropWhile [OF v] by simp
qed

lemma dropWhile_id: "xs = [] \<or> \<not> P (hd xs) \<Longrightarrow> dropWhile P xs = xs"
  by (cases xs) auto

lemma trim_trim: "trim (trim s) = trim s"
proof (cases "trim s = []")
  case True
  have "trim [] = []" by (simp add: trim_def)
  with True show ?thesis by simp
next
  case False
  have a: "dropWhile is_white_space (trim s) = trim s"
    using trim_ends(1) [OF False] by (intro dropWhile_id) simp
  have b: "dropWhile is_white_space (rev (trim s)) = rev (trim s)"
    using trim_ends(2) [OF False] False by (intro dropWhile_id) (simp add: hd_rev)
  show ?thesis
    unfolding trim_def [of "trim s"] a b by simp
qed

lemma find_map_same_id:
  assumes "\<And>t. id' (f t) = id' t"
  shows "find (\<lambda>t. id' t = i) (map (\<lambda>t. if id' t = i then f t else t) s)
           = map_option f (find (\<lambda>t. id' t = i) s)"
  using assms by (induction s) auto

lemma id_apply_fields: "id' (apply_fields p t) = id' t"
  by (simp add: apply_fields_def)

lemma Get_after_Update:
  assumes "Get s i = Inr old" and "Update s i p = (Inr new, s')"
  shows "Get s' i = Inr new" and "new = apply_fields p old"
  using assms
  by (auto simp: Get_def Update_def find_map_same_id [OF id_apply_fields]
      split: option.splits if_splits)

lemma handleSave_request:
  assumes "Fetch r \<in> set (snd (handleSave toISOString todoId st))"
  shows "trim (form_title st) \<noteq> []"
    and "payload toISOString st = Inr p \<Longrightarrow> body r = Some p"
    and "\<exists>p. payload toISOString st = Inr p"
    and "http_method r = (if isEditing todoId then PUT else POST)"
    and "url r = (if isEditing todoId then TodoUrl (the todoId) else TodosUrl)"
  using assms by (auto simp: handleSave_def split: if_splits sum.splits)

lemma payload_fields:
  assumes "payload toISOString st = Inr p"
  shows "map fst p = [''title'', ''description'', ''dueDate'', ''isImportant'']"
    and "map_of p ''title'' = Some (JString (trim (form_title st)))"
    and "map_of p ''description''
           = Some (if trim (form_description st) = [] then JNull
                   else JString (trim (form_description st)))"
    and "map_of p ''isImportant'' = Some (JBool (form_isImportant st))"
    and "map_of p ''isCompleted'' = None \<and> map_of p ''id'' = None
           \<and> map_of p ''createdAt'' = None"
    and "map_of p ''dueDate'' = Some JNull \<or> (\<exists>x. map_of p ''dueDate'' = Some (JString x))"
  using assms by (auto simp: payload_def split: option.splits Date.splits sum.splits)

lemma form_a_request:
  "Fetch \<lparr>http_method = POST, url = TodosUrl,
          body = Some [(''title'', JString [0x61]), (''description'', JNull),
                       (''dueDate'', JNull), (''isImportant'', JBool True)]\<rparr>
     \<in> set (snd (handleSave (\<lambda>t. []) None form_a))"
  by (simp add: handleSave_def payload_def form_a_def trim_def is_white_space_def isEditing_def)

lemma Get_item_a: "Get [item_a, item_b] [0x31] = Inr item_a"
  by (simp add: Get_def item_a_def)

section \<open>Failures at the call sites\<close>

text \<open>
  C8: a \<open>fetch\<close> that rejects (TransportError) is caught at each of the four call
  sites: no exception leaves the handler, an alert titled "Hata" reports it, and the
  state the continuation finds is kept but for the busy flag, which is reset; the list
  and the form fields are untouched. Taken with the first half of the handler, the
  state after the failed call is the state before it with the busy flag off. A failed
  load of the details also leaves the screen.
\<close>

theorem transport_error_is_caught_and_state_kept:
  "handleSave_settled todoId st NetworkError
     = (st\<lparr>isSaving := False\<rparr>, [ConsoleError, Alert Hata SaveFailed])
   \<and> fetchTodoDetails_settled newDate st NetworkError
     = (st\<lparr>form_loading := False\<rparr>, [Alert Hata DetailsFailed, GoBack])
   \<and> fetchTodos_settled q hs NetworkError
     = (hs\<lparr>loading := False\<rparr>, [ConsoleError, Alert Hata ListFailed])
   \<and> handleToggleCompletion_settled item hs NetworkError
     = (hs, [ConsoleError, Alert Hata ToggleFailed])
   \<and> fst (handleSave_settled todoId (fst (handleSave toISOString todoId st)) NetworkError)
     = st\<lparr>isSaving := False\<rparr>
   \<and> fst (fetchTodoDetails_settled newDate (fst (fetchTodoDetails i st)) NetworkError)
     = st\<lparr>form_loading := False\<rparr>
   \<and> fst (fetchTodos_settled q (fst (fetchTodos q hs)) NetworkError)
     = hs\<lparr>loading := False\<rparr>
   \<and> fst (handleToggleCompletion_settled item (fst (handleToggleCompletion item hs)) NetworkError)
     = hs"
  by (simp add: handleSave_settled_def fetchTodoDetails_settled_def fetchTodos_settled_def
      handleToggleCompletion_settled_def handleSave_def fetchTodoDetails_def fetchTodos_def
      handleToggleCompletion_def split: sum.split)

text \<open>
  C9, as the code has it: at each call site a response that is not ok gives the
  site's one "Hata" alert whatever its status, 400 and 404 included; no handler reads
  the status beyond \<open>response.ok\<close>, so the two failure kinds show the same message.
\<close>

theorem failure_message_ignores_the_status:
  assumes "\<not> ok status"
  shows "snd (handleSave_settled todoId st (Response status b1))
           = [ConsoleError, Alert Hata SaveFailed]
       \<and> snd (fetchTodoDetails_settled newDate st (Response status b2))
           = [Alert Hata DetailsFailed, GoBack]
       \<and> snd (fetchTodos_settled q hs (Response status b3))
           = [ConsoleError, Alert Hata ListFailed]
       \<and> snd (handleToggleCompletion_settled item hs (Response status b4))
           = [ConsoleError, Alert Hata ToggleFailed]"
  using assms
  by (simp add: handleSave_settled_def fetchTodoDetails_settled_def fetchTodos_settled_def
      handleToggleCompletion_settled_def split: option.split)

theorem failure_message_ignores_the_status_witness:
  "\<not> ok 404
   \<and> snd (handleSave_settled (Some [0x31]) form_a (Response 404 (None :: unit option)))
       = [ConsoleError, Alert Hata SaveFailed]
   \<and> snd (fetchTodoDetails_settled (\<lambda>s. InvalidDate) form_a (Response 404 None))
       = [Alert Hata DetailsFailed, GoBack]
   \<and> snd (fetchTodos_settled [] home_a (Response 404 None))
       = [ConsoleError, Alert Hata ListFailed]
   \<and> snd (handleToggleCompletion_settled item_a home_a (Response 404 (None :: unit option)))
       = [ConsoleError, Alert Hata ToggleFailed]"
proof -
  have h: "\<not> ok 404" by (simp add: ok_def)
  show ?thesis
    using h failure_message_ignores_the_status [OF h, of "Some [0x31]" form_a
        "None :: unit option" "\<lambda>s. InvalidDate" None "[]" home_a None item_a
        "None :: unit option"]
    by simp
qed

text \<open>
  The claim of C9 fails for a save of the item "1": the answers 400 (ValidationError)
  and 404 (NotFound) show the same alert.
\<close>

theorem validation_error_and_not_found_show_the_same_alert:
  "alerts (snd (handleSave_settled (Some [0x31]) form_a (Response 400 (None :: unit option))))
     = [(Hata, SaveFailed)]
   \<and> alerts (snd (handleSave_settled (Some [0x31]) form_a (Response 404 (None :: unit option))))
     = [(Hata, SaveFailed)]"
  by (simp add: handleSave_settled_def ok_def alerts_def)

section \<open>The list and its responses\<close>

lemma todos_fetchTodos_settled:
  "todos (fst (fetchTodos_settled q st r))
     = (case delivered r of None \<Rightarrow> todos st | Some data \<Rightarrow> data)"
  by (simp add: fetchTodos_settled_def delivered_def split: fetch_outcome.split option.split)

text \<open>
  C7, as the code has it: the continuation of \<open>fetchTodos\<close> stores the list of every
  successful response it receives and compares nothing with the request last issued,
  so the list shown after a sequence of arrivals is the one of the success that arrived
  last (the list held before, when none succeeded), whichever queries the arrivals
  answer.
\<close>

theorem list_is_the_last_success_to_arrive:
  "todos (arrivals rs st) = (case last_delivered rs of None \<Rightarrow> todos st | Some data \<Rightarrow> data)"
proof (induction rs arbitrary: st)
  case Nil
  show ?case by simp
next
  case (Cons a rs)
  obtain q r where a: "a = (q, r)" by (cases a)
  show ?case
    unfolding a
    by (simp add: Cons.IH todos_fetchTodos_settled split: option.split)
qed

text \<open>
  The claim of C7 fails when the search changes from "a" to "b" and the response to
  the older request arrives last: both requests are issued in that order, the filter
  is "b", and the list shown is the stale answer for "a".
\<close>

theorem stale_response_is_displayed:
  "requests (snd (handleSearch True [0x61] home_a))
     = [\<lparr>http_method = GET, url = TodosSearchUrl [0x61], body = None\<rparr>]
   \<and> requests (snd (handleSearch True [0x62] (fst (handleSearch True [0x61] home_a))))
     = [\<lparr>http_method = GET, url = TodosSearchUrl [0x62], body = None\<rparr>]
   \<and> searchQuery
       (arrivals [([0x62], Response 200 (Some [item_b])), ([0x61], Response 200 (Some [item_a]))]
         (fst (handleSearch True [0x62] (fst (handleSearch True [0x61] home_a))))) = [0x62]
   \<and> todos
       (arrivals [([0x62], Response 200 (Some [item_b])), ([0x61], Response 200 (Some [item_a]))]
         (fst (handleSearch True [0x62] (fst (handleSearch True [0x61] home_a))))) = [item_a]
   \<and> [item_a] \<noteq> [item_b]"
  by (simp add: handleSearch_def refresh_def fetchTodos_def fetchTodos_settled_def ok_def
      requests_def home_a_def item_a_def item_b_def is_high_surrogate_def is_low_surrogate_def)

section \<open>Toggling an item\<close>

text \<open>
  What \<open>handleToggleCompletion\<close> does to the list: nothing while its request is in
  flight; the flip is applied to the list held when the response arrives, and only if
  the response is ok; after any other response, or a rejected \<open>fetch\<close>, the list is
  the one it was.
\<close>

theorem toggle_is_applied_after_confirmation:
  "fst (handleToggleCompletion item st) = st
   \<and> fst (handleToggleCompletion_settled item st (Response status b))
       = (if ok status then
            st\<lparr>todos :=
                 map (\<lambda>t. if id' t = id' item then t\<lparr>isCompleted := \<not> isCompleted item\<rparr> else t)
                   (todos st)\<rparr>
          else st)
   \<and> fst (handleToggleCompletion_settled item st NetworkError) = st
   \<and> (ok status \<longrightarrow>
        (\<forall>t \<in> set (todos (fst (handleToggleCompletion_settled item st (Response status b)))).
            id' t = id' item \<longrightarrow> isCompleted t = (\<not> isCompleted item))
        \<and> (item \<in> set (todos st) \<longrightarrow>
             item\<lparr>isCompleted := \<not> isCompleted item\<rparr>
               \<in> set (todos (fst (handleToggleCompletion_settled item st (Response status b))))))"
proof -
  have in_flight: "fst (handleToggleCompletion item st) = st"
    by (simp add: handleToggleCompletion_def)
  have settled: "fst (handleToggleCompletion_settled item st (Response status b))
       = (if ok status then
            st\<lparr>todos :=
                 map (\<lambda>t. if id' t = id' item then t\<lparr>isCompleted := \<not> isCompleted item\<rparr> else t)
                   (todos st)\<rparr>
          else st)"
    by (simp add: handleToggleCompletion_settled_def)
  have rejected: "fst (handleToggleCompletion_settled item st NetworkError) = st"
    by (simp add: handleToggleCompletion_settled_def)
  have shown: "(\<forall>t \<in> set (todos (fst (handleToggleCompletion_settled item st (Response status b)))).
            id' t = id' item \<longrightarrow> isCompleted t = (\<not> isCompleted item))
        \<and> (item \<in> set (todos st) \<longrightarrow>
             item\<lparr>isCompleted := \<not> isCompleted item\<rparr>
               \<in> set (todos (fst (handleToggleCompletion_settled item st (Response status b)))))"
    if "ok status"
    unfolding settled using that by auto
  show ?thesis
    using in_flight settled rejected shown by blast
qed

theorem toggle_is_applied_after_confirmation_witness:
  "ok 200 \<and> \<not> ok 500 \<and> item_a \<in> set (todos home_a)
   \<and> fst (handleToggleCompletion item_a home_a) = home_a
   \<and> todos (fst (handleToggleCompletion_settled item_a home_a (Response 200 (None :: unit option))))
       = [item_a\<lparr>isCompleted := True\<rparr>]
   \<and> fst (handleToggleCompletion_settled item_a home_a (Response 500 (None :: unit option)))
       = home_a
   \<and> item_a\<lparr>isCompleted := \<not> isCompleted item_a\<rparr>
       \<in> set (todos (fst (handleToggleCompletion_settled item_a home_a
                              (Response 200 (None :: unit option)))))"
proof -
  have h: "ok 200" "\<not> ok 500" "item_a \<in> set (todos home_a)"
    by (simp_all add: ok_def home_a_def)
  show ?thesis
    using h toggle_is_applied_after_confirmation [of item_a home_a 200 "None :: unit option"]
      toggle_is_applied_after_confirmation [of item_a home_a 500 "None :: unit option"]
    by (simp add: home_a_def item_a_def handleToggleCompletion_def
        handleToggleCompletion_settled_def)
qed

text \<open>
  C1: the toggle is to be applied to the list before the server confirms it, and the
  comment of line 511 calls the \<open>setTodos\<close> of lines 512-516 the optimistic update;
  but that call stands after the \<open>await\<close> and inside \<open>if (response.ok)\<close>. The code
  at the failing input: the unchecked item "1" is toggled, the request carries
  \<open>isCompleted = true\<close>, and the list held while the request is in flight still
  shows the item unchecked.
\<close>

theorem toggle_in_flight_is_not_shown:
  "requests (snd (handleToggleCompletion item_a home_a))
     = [\<lparr>http_method = PUT, url = TodoUrl [0x31],
         body = Some [(''isCompleted'', JBool True)]\<rparr>]
   \<and> map isCompleted (todos home_a) = [False]
   \<and> map isCompleted (todos (fst (handleToggleCompletion item_a home_a))) = [False]"
  by (simp add: handleToggleCompletion_def requests_def home_a_def item_a_def)

text \<open>
  C5: the toggle sends one PUT to the item's URL whose body has the single key
  \<open>isCompleted\<close> with the flipped value; the store reads such a body as an update of
  that field alone, answers 200 with the item changed in \<open>isCompleted\<close> only, and a Get
  that follows returns that item.
\<close>

theorem toggle_sends_only_isCompleted:
  assumes "Get s i = Inr old"
  shows "requests (snd (handleToggleCompletion item hs))
           = [\<lparr>http_method = PUT, url = TodoUrl (id' item),
               body = Some [(''isCompleted'', JBool (\<not> isCompleted item))]\<rparr>]
       \<and> fields_of_body [(''isCompleted'', JBool v)]
           = \<lparr>new_title = None, new_description = None, new_dueDate = None,
              new_isImportant = None, new_isCompleted = Some v\<rparr>
       \<and> fst (put_todo s i [(''isCompleted'', JBool v)])
           = Response 200 (Some (old\<lparr>isCompleted := v\<rparr>))
       \<and> Get (snd (put_todo s i [(''isCompleted'', JBool v)])) i = Inr (old\<lparr>isCompleted := v\<rparr>)"
proof -
  let ?p = "\<lparr>new_title = None, new_description = None, new_dueDate = None,
             new_isImportant = None, new_isCompleted = Some v\<rparr>"
  have f: "fields_of_body [(''isCompleted'', JBool v)] = ?p"
    by (simp add: fields_of_body_def)
  have a: "apply_fields ?p old = old\<lparr>isCompleted := v\<rparr>"
    by (simp add: apply_fields_def)
  have u: "Update s i ?p
             = (Inr (old\<lparr>isCompleted := v\<rparr>),
                map (\<lambda>u. if id' u = i then apply_fields ?p u else u) s)"
    using assms a by (simp add: Update_def)
  have g: "Get (snd (Update s i ?p)) i = Inr (old\<lparr>isCompleted := v\<rparr>)"
    using Get_after_Update(1) [OF assms u] by (simp only: u snd_conv)
  have put: "put_todo s i [(''isCompleted'', JBool v)]
               = (Response 200 (Some (old\<lparr>isCompleted := v\<rparr>)), snd (Update s i ?p))"
    unfolding put_todo_def f by (simp add: u status_of_def)
  have req: "requests (snd (handleToggleCompletion item hs))
           = [\<lparr>http_method = PUT, url = TodoUrl (id' item),
               body = Some [(''isCompleted'', JBool (\<not> isCompleted item))]\<rparr>]"
    by (simp add: handleToggleCompletion_def requests_def)
  show ?thesis
    unfolding put fst_conv snd_conv using req f g by blast
qed

theorem toggle_sends_only_isCompleted_witness:
  "Get [item_a, item_b] [0x31] = Inr item_a
   \<and> requests (snd (handleToggleCompletion item_a home_a))
       = [\<lparr>http_method = PUT, url = TodoUrl [0x31],
           body = Some [(''isCompleted'', JBool True)]\<rparr>]
   \<and> fst (put_todo [item_a, item_b] [0x31] [(''isCompleted'', JBool True)])
       = Response 200 (Some (item_a\<lparr>isCompleted := True\<rparr>))
   \<and> Get (snd (put_todo [item_a, item_b] [0x31] [(''isCompleted'', JBool True)])) [0x31]
       = Inr (item_a\<lparr>isCompleted := True\<rparr>)"
  using toggle_sends_only_isCompleted [OF Get_item_a, of item_a home_a True] Get_item_a
  by (simp add: item_a_def)

section \<open>Saving from the form\<close>

text \<open>
  C2: for every title that trims to empty, Create and Update (with that title
  supplied) fail with ValidationError and return the store as it was, POST and PUT
  answer 400, and \<open>handleSave\<close> shows its warning, leaves the state as it is and
  issues no request.
\<close>

theorem blank_title_is_rejected:
  assumes "trim t = []"
  shows "Create new_id now s t d due imp = (Inl ValidationError, s)
       \<and> Update s i (p\<lparr>new_title := Some t\<rparr>) = (Inl ValidationError, s)
       \<and> post_todos new_id now s ((''title'', JString t) # b) = (Response 400 None, s)
       \<and> put_todo s i ((''title'', JString t) # b) = (Response 400 None, s)
       \<and> handleSave toISOString todoId (st\<lparr>form_title := t\<rparr>)
           = (st\<lparr>form_title := t\<rparr>, [Alert Uyari TitleEmpty])
       \<and> requests (snd (handleSave toISOString todoId (st\<lparr>form_title := t\<rparr>))) = []"
  using assms
  by (simp add: Create_def Update_def post_todos_def put_todo_def fields_of_body_def
      status_of_def handleSave_def requests_def)

theorem blank_title_is_rejected_witness:
  "trim [0x20, 0x09] = []
   \<and> Create [0x32] [0x30] [item_a] [0x20, 0x09] None None None = (Inl ValidationError, [item_a])
   \<and> Update [item_a] [0x31]
        \<lparr>new_title = Some [0x20, 0x09], new_description = None, new_dueDate = None,
         new_isImportant = None, new_isCompleted = Some True\<rparr>
       = (Inl ValidationError, [item_a])
   \<and> post_todos [0x32] [0x30] [item_a] [(''title'', JString [0x20, 0x09])]
       = (Response 400 None, [item_a])
   \<and> put_todo [item_a] [0x31] [(''title'', JString [0x20, 0x09])] = (Response 400 None, [item_a])
   \<and> handleSave (\<lambda>t. []) None (form_a\<lparr>form_title := [0x20, 0x09]\<rparr>)
       = (form_a\<lparr>form_title := [0x20, 0x09]\<rparr>, [Alert Uyari TitleEmpty])
   \<and> requests (snd (handleSave (\<lambda>t. []) None (form_a\<lparr>form_title := [0x20, 0x09]\<rparr>))) = []"
proof -
  have h: "trim [0x20, 0x09] = []" by (simp add: trim_def is_white_space_def)
  show ?thesis
    using h blank_title_is_rejected [OF h, of "[0x32]" "[0x30]" "[item_a]" None None None "[0x31]"
        "\<lparr>new_title = None, new_description = None, new_dueDate = None,
          new_isImportant = None, new_isCompleted = Some True\<rparr>" "[]" "\<lambda>t. []" None form_a]
    by (simp add: requests_def)
qed

text \<open>
  C3: every request that \<open>handleSave\<close> issues carries the trimmed title, which is not
  empty and neither starts nor ends with white space; the store keeps exactly that
  title, for a created item and for an updated one.
\<close>

theorem saved_title_is_trimmed:
  assumes "Fetch r \<in> set (snd (handleSave toISOString todoId st))"
  shows "\<exists>p. body r = Some p
           \<and> map_of p ''title'' = Some (JString (trim (form_title st)))
           \<and> trim (form_title st) \<noteq> []
           \<and> \<not> is_white_space (hd (trim (form_title st)))
           \<and> \<not> is_white_space (last (trim (form_title st)))
           \<and> (\<exists>new. post_todos new_id now s p = (Response 201 (Some new), s @ [new])
                 \<and> title new = trim (form_title st))
           \<and> (\<forall>old. Get s i = Inr old \<longrightarrow>
                 (\<exists>new. fst (put_todo s i p) = Response 200 (Some new)
                    \<and> Get (snd (put_todo s i p)) i = Inr new
                    \<and> title new = trim (form_title st)))"
proof -
  obtain p where p: "payload toISOString st = Inr p"
    using handleSave_request(3) [OF assms] by blast
  have b: "body r = Some p" using handleSave_request(2) [OF assms p] .
  have ne: "trim (form_title st) \<noteq> []" using handleSave_request(1) [OF assms] .
  have t: "new_title (fields_of_body p) = Some (trim (form_title st))"
    by (simp add: fields_of_body_def payload_fields(2) [OF p])
  have post: "\<exists>new. post_todos new_id now s p = (Response 201 (Some new), s @ [new])
                 \<and> title new = trim (form_title st)"
    using ne by (simp add: post_todos_def Create_def t trim_trim status_of_def Let_def)
  have put: "\<exists>new. fst (put_todo s i p) = Response 200 (Some new)
                    \<and> Get (snd (put_todo s i p)) i = Inr new
                    \<and> title new = trim (form_title st)" if old: "Get s i = Inr old" for old
  proof -
    have u: "Update s i (fields_of_body p)
               = (Inr (apply_fields (fields_of_body p) old),
                  map (\<lambda>u. if id' u = i then apply_fields (fields_of_body p) u else u) s)"
      using ne old by (simp add: Update_def t trim_trim)
    have g: "Get (snd (Update s i (fields_of_body p))) i = Inr (apply_fields (fields_of_body p) old)"
      using Get_after_Update(1) [OF old u] by (simp add: u)
    show ?thesis
      using g by (simp add: put_todo_def u status_of_def apply_fields_def t trim_trim)
  qed
  show ?thesis
    using b payload_fields(2) [OF p] ne trim_ends [OF ne] post put by blast
qed

theorem saved_title_is_trimmed_witness:
  "Fetch \<lparr>http_method = POST, url = TodosUrl,
          body = Some [(''title'', JString [0x61]), (''description'', JNull),
                       (''dueDate'', JNull), (''isImportant'', JBool True)]\<rparr>
     \<in> set (snd (handleSave (\<lambda>t. []) None form_a))
   \<and> form_title form_a = [0x20, 0x61, 0x20]
   \<and> trim (form_title form_a) = [0x61]
   \<and> Get [item_a, item_b] [0x31] = Inr item_a
   \<and> (\<exists>new. post_todos [0x33] [0x30] [item_a, item_b]
                [(''title'', JString [0x61]), (''description'', JNull),
                 (''dueDate'', JNull), (''isImportant'', JBool True)]
              = (Response 201 (Some new), [item_a, item_b] @ [new])
            \<and> title new = [0x61])
   \<and> (\<exists>new. fst (put_todo [item_a, item_b] [0x31]
                [(''title'', JString [0x61]), (''description'', JNull),
                 (''dueDate'', JNull), (''isImportant'', JBool True)])
              = Response 200 (Some new)
            \<and> Get (snd (put_todo [item_a, item_b] [0x31]
                [(''title'', JString [0x61]), (''description'', JNull),
                 (''dueDate'', JNull), (''isImportant'', JBool True)])) [0x31] = Inr new
            \<and> title new = [0x61])"
proof -
  have t: "trim (form_title form_a) = [0x61]"
    by (simp add: form_a_def trim_def is_white_space_def)
  show ?thesis
    using saved_title_is_trimmed [OF form_a_request, of "[0x33]" "[0x30]" "[item_a, item_b]" "[0x31]"]
      form_a_request Get_item_a t
    by (auto simp: form_a_def)
qed

text \<open>
  C4: in every request that \<open>handleSave\<close> issues, the only one of the client that
  carries a description, a description that is empty after trimming is sent as null
  and any other as its trimmed text; the empty string is never sent, and null is
  another value than the empty string.
\<close>

theorem absent_description_is_null:
  assumes "Fetch r \<in> set (snd (handleSave toISOString todoId st))"
  shows "\<exists>p. body r = Some p
           \<and> map_of p ''description''
               = Some (if trim (form_description st) = [] then JNull
                       else JString (trim (form_description st)))
           \<and> map_of p ''description'' \<noteq> Some (JString [])
           \<and> JNull \<noteq> JString []"
proof -
  obtain p where p: "payload toISOString st = Inr p"
    using handleSave_request(3) [OF assms] by blast
  show ?thesis
    using handleSave_request(2) [OF assms p] payload_fields(3) [OF p] by auto
qed

theorem absent_description_is_null_witness:
  "Fetch \<lparr>http_method = POST, url = TodosUrl,
          body = Some [(''title'', JString [0x61]), (''description'', JNull),
                       (''dueDate'', JNull), (''isImportant'', JBool True)]\<rparr>
     \<in> set (snd (handleSave (\<lambda>t. []) None form_a))
   \<and> form_description form_a = [0x20]
   \<and> trim (form_description form_a) = []
   \<and> map_of [(''title'', JString [0x61]), (''description'', JNull),
              (''dueDate'', JNull), (''isImportant'', JBool True)] ''description'' = Some JNull"
proof -
  have t: "trim (form_description form_a) = []"
    by (simp add: form_a_def trim_def is_white_space_def)
  show ?thesis
    using absent_description_is_null [OF form_a_request] form_a_request t
    by (auto simp: form_a_def)
qed

text \<open>
  C10: the body of every request that \<open>handleSave\<close> issues has exactly the keys
  \<open>title\<close>, \<open>description\<close>, \<open>dueDate\<close> and \<open>isImportant\<close>, so none of
  \<open>isCompleted\<close>, \<open>id\<close> and \<open>createdAt\<close>; a PUT of that body to an item of the
  store answers 200 and leaves the item's \<open>isCompleted\<close>, \<open>createdAt\<close> and \<open>id\<close>
  as they were.
\<close>

theorem save_body_has_four_fields:
  assumes "Fetch r \<in> set (snd (handleSave toISOString todoId st))"
  shows "\<exists>p. body r = Some p
           \<and> map fst p = [''title'', ''description'', ''dueDate'', ''isImportant'']
           \<and> map_of p ''isCompleted'' = None \<and> map_of p ''id'' = None
           \<and> map_of p ''createdAt'' = None
           \<and> (\<forall>old. Get s i = Inr old \<longrightarrow>
                 (\<exists>new. fst (put_todo s i p) = Response 200 (Some new)
                    \<and> Get (snd (put_todo s i p)) i = Inr new
                    \<and> isCompleted new = isCompleted old
                    \<and> createdAt new = createdAt old
                    \<and> id' new = id' old))"
proof -
  obtain p where p: "payload toISOString st = Inr p"
    using handleSave_request(3) [OF assms] by blast
  have b: "body r = Some p" using handleSave_request(2) [OF assms p] .
  have ne: "trim (form_title st) \<noteq> []" using handleSave_request(1) [OF assms] .
  have k: "map fst p = [''title'', ''description'', ''dueDate'', ''isImportant'']"
    using payload_fields(1) [OF p] .
  have absent: "map_of p ''isCompleted'' = None" "map_of p ''id'' = None"
    "map_of p ''createdAt'' = None"
    using payload_fields(5) [OF p] by simp_all
  have t: "new_title (fields_of_body p) = Some (trim (form_title st))"
    by (simp add: fields_of_body_def payload_fields(2) [OF p])
  have c: "new_isCompleted (fields_of_body p) = None"
    by (simp add: fields_of_body_def absent)
  have put: "\<exists>new. fst (put_todo s i p) = Response 200 (Some new)
                    \<and> Get (snd (put_todo s i p)) i = Inr new
                    \<and> isCompleted new = isCompleted old
                    \<and> createdAt new = createdAt old
                    \<and> id' new = id' old" if old: "Get s i = Inr old" for old
  proof -
    have u: "Update s i (fields_of_body p)
               = (Inr (apply_fields (fields_of_body p) old),
                  map (\<lambda>u. if id' u = i then apply_fields (fields_of_body p) u else u) s)"
      using ne old by (simp add: Update_def t trim_trim)
    have g: "Get (snd (Update s i (fields_of_body p))) i = Inr (apply_fields (fields_of_body p) old)"
      using Get_after_Update(1) [OF old u] by (simp add: u)
    show ?thesis
      using g by (simp add: put_todo_def u status_of_def apply_fields_def c)
  qed
  from b k absent put show ?thesis
    by (intro exI [of _ p]) simp
qed

theorem save_body_has_four_fields_witness:
  "Fetch \<lparr>http_method = POST, url = TodosUrl,
          body = Some [(''title'', JString [0x61]), (''description'', JNull),
                       (''dueDate'', JNull), (''isImportant'', JBool True)]\<rparr>
     \<in> set (snd (handleSave (\<lambda>t. []) None form_a))
   \<and> Get [item_a, item_b] [0x32] = Inr item_b
   \<and> isCompleted item_b
   \<and> (\<exists>new. fst (put_todo [item_a, item_b] [0x32]
                [(''title'', JString [0x61]), (''description'', JNull),
                 (''dueDate'', JNull), (''isImportant'', JBool True)])
              = Response 200 (Some new)
            \<and> Get (snd (put_todo [item_a, item_b] [0x32]
                [(''title'', JString [0x61]), (''description'', JNull),
                 (''dueDate'', JNull), (''isImportant'', JBool True)])) [0x32] = Inr new
            \<and> isCompleted new = isCompleted item_b
            \<and> createdAt new = createdAt item_b
            \<and> id' new = id' item_b)"
proof -
  have g: "Get [item_a, item_b] [0x32] = Inr item_b"
    by (simp add: Get_def item_a_def item_b_def)
  show ?thesis
    using save_body_has_four_fields [OF form_a_request, of "[item_a, item_b]" "[0x32]"]
      form_a_request g
    by (auto simp: item_b_def)
qed

section \<open>The debounce\<close>

lemma quiet_mount: "quiet (fst (mount t0 focused))"
  by (simp add: mount_def quiet_def split: prod.split)

lemma quiet_step: "quiet a \<Longrightarrow> quiet (fst (step e a))"
  by (cases e) (auto simp: quiet_def split: option.splits prod.splits if_splits)

lemma quiet_run: "quiet a \<Longrightarrow> quiet (run es a)"
  by (induction es arbitrary: a) (simp_all add: quiet_step)

lemma fetch_of_handleSearch:
  assumes "Fetch r \<in> set (snd (handleSearch f q h))"
  shows "url r = (if q = [] then TodosUrl else TodosSearchUrl q)"
    and "searchQuery (fst (handleSearch f q h)) = q"
  using assms
  by (auto simp: handleSearch_def refresh_def fetchTodos_def split: if_splits)

text \<open>
  C6: in every state the mounted screen can reach, a fetch that the timer of the
  search bar causes is issued at least 300 ms after the last edit of the text, asks
  for the text the bar then holds and makes it the filter of the list. An edit issues
  no request itself; it resets the quiet period and replaces the pending timer by
  one for the new text, due 300 ms later.
\<close>

lemma step_filter:
  assumes "searchQuery (home (fst (step e a))) \<noteq> searchQuery (home a)"
  shows "e = TimerFires"
  using assms
  by (cases e)
    (auto simp: refresh_def fetchTodos_def fetchTodos_settled_def
      handleToggleCompletion_settled_def
      split: if_splits prod.splits option.splits fetch_outcome.splits)

lemma step_last_edit:
  assumes "last_edit (fst (step e a)) \<noteq> last_edit a"
  shows "\<exists>s. e = ChangeText s \<and> s \<noteq> query (bar a)"
  using assms
  by (cases e) (auto split: if_splits prod.splits option.splits)

lemma timer_fires:
  assumes "quiet a" and "fst (step TimerFires a) \<noteq> a \<or> snd (step TimerFires a) \<noteq> []"
  shows "last_edit a + 300 \<le> clock a"
    and "fst (step TimerFires a)
           = a\<lparr>bar := (bar a)\<lparr>timer := None\<rparr>,
               home := fst (handleSearch (isFocused a) (query (bar a)) (home a))\<rparr>"
    and "snd (step TimerFires a) = snd (handleSearch (isFocused a) (query (bar a)) (home a))"
  using assms
  by (auto simp: quiet_def split: option.splits prod.splits if_splits)

theorem search_fetch_is_debounced:
  assumes "a = run es (fst (mount start focused))"
  shows "(Fetch r \<in> set (snd (step TimerFires a)) \<longrightarrow>
            last_edit a + 300 \<le> clock a
            \<and> url r = (if query (bar a) = [] then TodosUrl else TodosSearchUrl (query (bar a)))
            \<and> searchQuery (home (fst (step TimerFires a))) = query (bar a))
       \<and> (searchQuery (home (fst (step e a))) \<noteq> searchQuery (home a) \<longrightarrow>
            e = TimerFires \<and> last_edit a + 300 \<le> clock a
            \<and> searchQuery (home (fst (step e a))) = query (bar a))
       \<and> snd (step (ChangeText s) a) = []
       \<and> (s \<noteq> query (bar a) \<longrightarrow>
            last_edit (fst (step (ChangeText s) a)) = clock a
            \<and> timer (bar (fst (step (ChangeText s) a))) = Some (clock a + 300, s))
       \<and> (last_edit (fst (step e a)) \<noteq> last_edit a \<longrightarrow>
            (\<exists>s. e = ChangeText s \<and> s \<noteq> query (bar a)))"
proof -
  have q: "quiet a" unfolding assms by (intro quiet_run quiet_mount)
  have fetch: "last_edit a + 300 \<le> clock a
            \<and> url r = (if query (bar a) = [] then TodosUrl else TodosSearchUrl (query (bar a)))
            \<and> searchQuery (home (fst (step TimerFires a))) = query (bar a)"
    if f: "Fetch r \<in> set (snd (step TimerFires a))"
  proof -
    have ne: "fst (step TimerFires a) \<noteq> a \<or> snd (step TimerFires a) \<noteq> []"
      using f by auto
    have f': "Fetch r \<in> set (snd (handleSearch (isFocused a) (query (bar a)) (home a)))"
      using f timer_fires(3) [OF q ne] by simp
    show ?thesis
      using timer_fires(1) [OF q ne] fetch_of_handleSearch [OF f']
      by (simp add: timer_fires(2) [OF q ne] del: step.simps)
  qed
  have filter: "e = TimerFires \<and> last_edit a + 300 \<le> clock a
            \<and> searchQuery (home (fst (step e a))) = query (bar a)"
    if c: "searchQuery (home (fst (step e a))) \<noteq> searchQuery (home a)"
  proof -
    have e: "e = TimerFires" using step_filter [OF c] .
    have ne: "fst (step TimerFires a) \<noteq> a \<or> snd (step TimerFires a) \<noteq> []"
      using c e by auto
    have "searchQuery (fst (handleSearch (isFocused a) (query (bar a)) (home a)))
            \<noteq> searchQuery (home a)"
      using c by (simp add: e timer_fires(2) [OF q ne] del: step.simps)
    then have "searchQuery (fst (handleSearch (isFocused a) (query (bar a)) (home a)))
            = query (bar a)"
      by (auto simp: handleSearch_def refresh_def fetchTodos_def split: if_splits)
    then show ?thesis
      using timer_fires(1) [OF q ne] by (simp add: e timer_fires(2) [OF q ne] del: step.simps)
  qed
  have edit: "snd (step (ChangeText s) a) = []"
    "s \<noteq> query (bar a) \<longrightarrow>
            last_edit (fst (step (ChangeText s) a)) = clock a
            \<and> timer (bar (fst (step (ChangeText s) a))) = Some (clock a + 300, s)"
    by simp_all
  show ?thesis
    using fetch filter edit step_last_edit [of e a] by blast
qed

lemma typed_a_then_300ms:
  "run [ChangeText [0x61], Elapse 300] (fst (mount 0 True))
     = \<lparr>clock = 300, bar = \<lparr>query = [0x61], timer = Some (300, [0x61])\<rparr>,
        home = \<lparr>todos = [], loading = True, searchQuery = []\<rparr>,
        isFocused = True, last_edit = 0\<rparr>"
  by (simp add: mount_def refresh_def fetchTodos_def)

theorem search_fetch_is_debounced_witness:
  "Fetch \<lparr>http_method = GET, url = TodosSearchUrl [0x61], body = None\<rparr>
     \<in> set (snd (step TimerFires (run [ChangeText [0x61], Elapse 300] (fst (mount 0 True)))))
   \<and> last_edit (run [ChangeText [0x61], Elapse 300] (fst (mount 0 True))) + 300
       \<le> clock (run [ChangeText [0x61], Elapse 300] (fst (mount 0 True)))
   \<and> searchQuery (home (run [ChangeText [0x61], Elapse 300] (fst (mount 0 True)))) = []
   \<and> searchQuery (home (fst (step TimerFires
         (run [ChangeText [0x61], Elapse 300] (fst (mount 0 True)))))) = [0x61]
   \<and> [0x62] \<noteq> query (bar (run [ChangeText [0x61], Elapse 300] (fst (mount 0 True))))
   \<and> timer (bar (fst (step (ChangeText [0x62])
         (run [ChangeText [0x61], Elapse 300] (fst (mount 0 True))))))
       = Some (600, [0x62])
   \<and> last_edit (run [ChangeText [0x61], Elapse 300] (fst (mount 0 True))) = 0
   \<and> last_edit (fst (step (ChangeText [0x62])
         (run [ChangeText [0x61], Elapse 300] (fst (mount 0 True))))) = 300
   \<and> snd (step TimerFires (run [ChangeText [0x61], Elapse 299] (fst (mount 0 True)))) = []"
proof -
  let ?a = "run [ChangeText [0x61], Elapse 300] (fst (mount 0 True))"
  have h: "Fetch \<lparr>http_method = GET, url = TodosSearchUrl [0x61], body = None\<rparr>
             \<in> set (snd (step TimerFires ?a))"
    unfolding typed_a_then_300ms
    by (simp add: handleSearch_def refresh_def fetchTodos_def is_high_surrogate_def
        is_low_surrogate_def)
  have early: "snd (step TimerFires (run [ChangeText [0x61], Elapse 299] (fst (mount 0 True)))) = []"
    by (simp add: mount_def refresh_def fetchTodos_def)
  show ?thesis
    using search_fetch_is_debounced [where es = "[ChangeText [0x61], Elapse 300]"
        and start = 0 and focused = True and e = TimerFires and s = "[0x62]"
        and r = "\<lparr>http_method = GET, url = TodosSearchUrl [0x61], body = None\<rparr>", OF refl]
      search_fetch_is_debounced [where es = "[ChangeText [0x61], Elapse 300]"
        and start = 0 and focused = True and e = "ChangeText [0x62]" and s = "[0x62]"
        and r = "\<lparr>http_method = GET, url = TodosSearchUrl [0x61], body = None\<rparr>", OF refl]
      h early
    unfolding typed_a_then_300ms
    by (simp add: handleSearch_def refresh_def fetchTodos_def is_high_surrogate_def
        is_low_surrogate_def)
qed

end
